theory Spec2Isabelle
  imports Complex_Main "HOL-Library.Word"
begin

section \<open>Machine integers, strings and time\<close>

text \<open>
  The models of package \<open>model\<close> (Go, GORM). Go's \<open>int64\<close> is a 64-bit word read as
  two's complement (\<open>sint\<close>); \<open>+\<close> and \<open>-\<close> on it wrap around, as Go's do. Go's
  \<open>uint\<close> identifiers are 64-bit words compared for equality only. Go's \<open>int\<close> is 64
  bits wide on the platforms the models are laid out for (the source counts 8 bytes for
  each \<open>int\<close> field): a day count is a 64-bit word, tested against 0, negated with
  wrap-around and handed to the time library. The item counts of a recycle bin are only
  compared and converted to \<open>float64\<close>; they are integers without a bound, which
  include every Go \<open>int\<close>.

  The string-typed enumerations (\<open>RecycleStatus\<close>, \<open>teamMemberRole\<close>, ...) are strings:
  the empty string is a value of each of them, and the hooks test for it.
\<close>

type_synonym int64 = "64 word"
type_synonym uint = "64 word"
type_synonym go_int = "64 word"

text \<open>
  \<open>time.Time\<close> is an instant, counted in nanoseconds from the Unix epoch.
  \<open>t.After(u)\<close> and \<open>t.Before(u)\<close> compare instants strictly, whatever the locations.
  \<open>time.Now()\<close> is read from the clock: every function that calls it takes the instant
  as an argument. \<open>t.AddDate(0, 0, days)\<close> belongs to the time library, not to the
  repository: it moves the calendar date by \<open>days\<close> days in the location of \<open>t\<close> and
  keeps the wall clock, so its result depends on the location's offset changes, and its
  arithmetic is 64 bits wide. Every function that calls it takes it as the argument
  \<open>AddDate\<close>, a function from an instant and a day count to an instant.
\<close>

type_synonym Time = int

definition After :: "Time \<Rightarrow> Time \<Rightarrow> bool" where
  "After t u \<longleftrightarrow> u < t"

definition Before :: "Time \<Rightarrow> Time \<Rightarrow> bool" where
  "Before t u \<longleftrightarrow> t < u"


text \<open>
  The library in the UTC location, where a concrete library is needed. It is part of
  Go's standard library, not of the repository: \<open>Date\<close> of package \<open>time\<close> adds
  the day count, times 86400, to the instant's seconds in unsigned 64-bit arithmetic and
  keeps the nanoseconds; a \<open>Time\<close> holds its seconds, counted from the year 1, as an
  \<open>int64\<close>. So the seconds of the result are those of the instant plus \<open>86400 * days\<close>,
  wrapped around to 64 bits.
\<close>

definition unixToInternal :: int where
  "unixToInternal = 62135596800"

definition wrap64 :: "int \<Rightarrow> int" where
  "wrap64 x = (x + 2 ^ 63) mod 2 ^ 64 - 2 ^ 63"

definition AddDate_UTC :: "Time \<Rightarrow> go_int \<Rightarrow> Time" where
  "AddDate_UTC t days =
     (wrap64 (t div 1000000000 + unixToInternal + sint days * 86400) - unixToInternal)
       * 1000000000
     + t mod 1000000000"

section \<open>Users (internal/model/user.go)\<close>

definition UserStatusActive :: string where "UserStatusActive = ''active''"
definition UserTypeNormal :: string where "UserTypeNormal = ''normal''"
definition UserTypeAdmin :: string where "UserTypeAdmin = ''admin''"

record User =
  u_ID :: uint
  u_UserType :: string
  u_Status :: string
  u_StorageQuota :: int64
  u_UsedStorage :: int64
  u_PermissionTemplateID :: "uint option"
  u_LockedUntil :: "Time option"

definition User_BeforeCreate :: "User \<Rightarrow> User" where
  "User_BeforeCreate u =
     (let u1 = (if u_UserType u = [] then u\<lparr>u_UserType := UserTypeNormal\<rparr> else u);
          u2 = (if u_Status u1 = [] then u1\<lparr>u_Status := UserStatusActive\<rparr> else u1)
      in if u_StorageQuota u2 = 0 then u2\<lparr>u_StorageQuota := 5368709120\<rparr> else u2)"

definition User_IsActive :: "User \<Rightarrow> bool" where
  "User_IsActive u \<longleftrightarrow> u_Status u = UserStatusActive"

definition User_IsStorageExceeded :: "User \<Rightarrow> bool" where
  "User_IsStorageExceeded u \<longleftrightarrow> sint (u_StorageQuota u) \<le> sint (u_UsedStorage u)"

definition User_GetAvailableStorage :: "User \<Rightarrow> int64" where
  "User_GetAvailableStorage u = u_StorageQuota u - u_UsedStorage u"

definition User_IsLocked :: "Time \<Rightarrow> User \<Rightarrow> bool" where
  "User_IsLocked now u \<longleftrightarrow>
     (case u_LockedUntil u of None \<Rightarrow> False | Some t \<Rightarrow> After t now)"

section \<open>Storage configurations (internal/model/config.go)\<close>

definition ConfigStatusActive :: string where "ConfigStatusActive = ''active''"

record storageConfig =
  stc_MaxFileSize :: int64
  stc_TotalFiles :: int64
  stc_TotalSize :: int64
  stc_UsedSize :: int64
  stc_QuotaSize :: int64
  stc_Provider :: string
  stc_Status :: string
  stc_DefaultFlag :: bool
  stc_EnabledFlag :: bool

definition storageConfig_IsActive :: "storageConfig \<Rightarrow> bool" where
  "storageConfig_IsActive stc \<longleftrightarrow> stc_Status stc = ConfigStatusActive"

definition storageConfig_IsEnabled :: "storageConfig \<Rightarrow> bool" where
  "storageConfig_IsEnabled stc \<longleftrightarrow> stc_EnabledFlag stc"

definition storageConfig_IsQuotaExceeded :: "storageConfig \<Rightarrow> bool" where
  "storageConfig_IsQuotaExceeded stc \<longleftrightarrow>
     0 < sint (stc_QuotaSize stc) \<and> sint (stc_QuotaSize stc) \<le> sint (stc_UsedSize stc)"

definition CanUpload :: "storageConfig \<Rightarrow> int64 \<Rightarrow> bool" where
  "CanUpload stc fileSize =
     (if \<not> storageConfig_IsEnabled stc \<or> \<not> storageConfig_IsActive stc then False
      else if sint (stc_MaxFileSize stc) < sint fileSize then False
      else if 0 < sint (stc_QuotaSize stc)
              \<and> sint (stc_QuotaSize stc) < sint (stc_UsedSize stc + fileSize) then False
      else True)"

section \<open>Team members (src/unnamed, part 003)\<close>

definition TeamMemberRoleOwner :: string where "TeamMemberRoleOwner = ''owner''"
definition TeamMemberRoleAdmin :: string where "TeamMemberRoleAdmin = ''admin''"
definition TeamMemberRoleMember :: string where "TeamMemberRoleMember = ''member''"
definition TeamMemberRoleViewer :: string where "TeamMemberRoleViewer = ''viewer''"

definition TeamMemberStatusActive :: string where "TeamMemberStatusActive = ''active''"
definition TeamMemberStatusInvited :: string where "TeamMemberStatusInvited = ''invited''"
definition TeamMemberStatusInactive :: string where "TeamMemberStatusInactive = ''inactive''"
definition TeamMemberStatusLeft :: string where "TeamMemberStatusLeft = ''left''"

definition TeamStatusActive :: string where "TeamStatusActive = ''active''"

record Team =
  t_Status :: string
  t_StorageUsed :: int64
  t_StorageLimit :: int64
  t_ID :: uint
  t_CreatorID :: uint
  t_MaxMembers :: int
  t_MemberCount :: int
  t_FileCount :: int
  t_IsPublic :: bool

definition Team_BeforeCreate :: "Team \<Rightarrow> Team" where
  "Team_BeforeCreate t =
     (let t1 = (if t_Status t = [] then t\<lparr>t_Status := TeamStatusActive\<rparr> else t);
          t2 = (if t_MaxMembers t1 = 0 then t1\<lparr>t_MaxMembers := 50\<rparr> else t1)
      in if t_StorageLimit t2 = 0 then t2\<lparr>t_StorageLimit := 53687091200\<rparr> else t2)"

definition Team_IsStorageExceeded :: "Team \<Rightarrow> bool" where
  "Team_IsStorageExceeded t \<longleftrightarrow> sint (t_StorageLimit t) \<le> sint (t_StorageUsed t)"

definition Team_GetAvailableStorage :: "Team \<Rightarrow> int64" where
  "Team_GetAvailableStorage t = t_StorageLimit t - t_StorageUsed t"

record TeamMember =
  tm_ID :: uint
  tm_TeamID :: uint
  tm_UserID :: uint
  tm_Role :: string
  tm_Status :: string

definition TeamMember_BeforeCreate :: "TeamMember \<Rightarrow> TeamMember" where
  "TeamMember_BeforeCreate tm =
     (let tm1 = (if tm_Role tm = [] then tm\<lparr>tm_Role := TeamMemberRoleMember\<rparr> else tm)
      in if tm_Status tm1 = [] then tm1\<lparr>tm_Status := TeamMemberStatusActive\<rparr> else tm1)"

definition TeamMember_IsOwner :: "TeamMember \<Rightarrow> bool" where
  "TeamMember_IsOwner tm \<longleftrightarrow> tm_Role tm = TeamMemberRoleOwner"

definition TeamMember_IsAdmin :: "TeamMember \<Rightarrow> bool" where
  "TeamMember_IsAdmin tm \<longleftrightarrow>
     tm_Role tm = TeamMemberRoleAdmin \<or> tm_Role tm = TeamMemberRoleOwner"

definition TeamMember_IsActive :: "TeamMember \<Rightarrow> bool" where
  "TeamMember_IsActive tm \<longleftrightarrow> tm_Status tm = TeamMemberStatusActive"

definition CanManageTeam :: "TeamMember \<Rightarrow> bool" where
  "CanManageTeam tm \<longleftrightarrow>
     TeamMember_IsActive tm
     \<and> (tm_Role tm = TeamMemberRoleOwner \<or> tm_Role tm = TeamMemberRoleAdmin)"

lemmas team_consts =
  TeamMemberRoleOwner_def TeamMemberRoleAdmin_def TeamMemberRoleMember_def
  TeamMemberRoleViewer_def TeamMemberStatusActive_def TeamMemberStatusInvited_def
  TeamMemberStatusInactive_def TeamMemberStatusLeft_def

section \<open>Permission grants (src/unnamed, part 004)\<close>

definition PermissionRead :: string where "PermissionRead = ''read''"
definition PermissionWrite :: string where "PermissionWrite = ''write''"
definition PermissionDelete :: string where "PermissionDelete = ''delete''"
definition PermissionShare :: string where "PermissionShare = ''share''"

record userPermission =
  up_ID :: uint
  up_UserID :: uint
  up_ResourceType :: string
  up_ResourceID :: "uint option"
  up_Action :: string
  up_Allowed :: bool
  up_GrantedBy :: "uint option"
  up_GrantedAt :: Time
  up_ExpiresAt :: "Time option"

record filePermission =
  fp_ID :: uint
  fp_FileID :: uint
  fp_UserID :: "uint option"
  fp_TeamID :: "uint option"
  fp_Action :: string
  fp_Allowed :: bool
  fp_GrantedBy :: "uint option"
  fp_GrantedAt :: Time
  fp_ExpiresAt :: "Time option"

record templatePermission =
  tp_ID :: uint
  tp_TemplateID :: uint
  tp_ResourceType :: string
  tp_Action :: string
  tp_Allowed :: bool

definition userPermission_IsExpired :: "Time \<Rightarrow> userPermission \<Rightarrow> bool" where
  "userPermission_IsExpired now up \<longleftrightarrow>
     (case up_ExpiresAt up of None \<Rightarrow> False | Some e \<Rightarrow> Before e now)"

definition filePermission_IsExpired :: "Time \<Rightarrow> filePermission \<Rightarrow> bool" where
  "filePermission_IsExpired now fp \<longleftrightarrow>
     (case fp_ExpiresAt fp of None \<Rightarrow> False | Some e \<Rightarrow> Before e now)"

section \<open>Recycle items and recycle bins (src/unnamed, part 002)\<close>

definition RecycleStatusDeleted :: string where "RecycleStatusDeleted = ''deleted''"
definition RecycleStatusRestored :: string where "RecycleStatusRestored = ''restored''"
definition RecycleStatusPermanent :: string where "RecycleStatusPermanent = ''permanent''"

definition RecycleTypeFile :: string where "RecycleTypeFile = ''file''"
definition RecycleTypeFolder :: string where "RecycleTypeFolder = ''folder''"

lemmas recycle_consts =
  RecycleStatusDeleted_def RecycleStatusRestored_def RecycleStatusPermanent_def
  RecycleTypeFile_def RecycleTypeFolder_def

record RecycleItem =
  ri_DeletedAt :: Time
  ri_OriginalParentID :: "uint option"
  ri_RestoredAt :: "Time option"
  ri_RestoredBy :: "uint option"
  ri_PermanentDeletedAt :: "Time option"
  ri_PermanentDeletedBy :: "uint option"
  ri_ExpiresAt :: "Time option"
  ri_OriginalPath :: string
  ri_StoragePath :: string
  ri_Type :: string
  ri_Status :: string
  ri_FileSize :: int64
  ri_ID :: uint
  ri_UserID :: uint
  ri_OriginalFileID :: uint
  ri_DeletedBy :: uint
  ri_AutoDeleteDays :: go_int

record RecycleBin =
  rb_ID :: uint
  rb_UserID :: uint
  rb_IsEnabled :: bool
  rb_AutoDeleteDays :: go_int
  rb_MaxStorageSize :: int64
  rb_CurrentStorageSize :: int64
  rb_MaxItemCount :: int
  rb_CurrentItemCount :: int
  rb_NotifyBeforeDelete :: bool
  rb_NotifyDays :: go_int

text \<open>
  The GORM hooks mutate the receiver and always return a nil error: the model returns the
  updated record. The three steps of \<open>RecycleItem.BeforeCreate\<close> run in the source's
  order, so the expiry is computed from the day count after its default was applied.
\<close>

definition RecycleItem_BeforeCreate ::
  "(Time \<Rightarrow> go_int \<Rightarrow> Time) \<Rightarrow> Time \<Rightarrow> RecycleItem \<Rightarrow> RecycleItem" where
  "RecycleItem_BeforeCreate AddDate now ri =
     (let ri1 = (if ri_Status ri = [] then ri\<lparr>ri_Status := RecycleStatusDeleted\<rparr> else ri);
          ri2 = (if ri_AutoDeleteDays ri1 = 0 then ri1\<lparr>ri_AutoDeleteDays := 30\<rparr> else ri1)
      in if ri_ExpiresAt ri2 = None
         then ri2\<lparr>ri_ExpiresAt := Some (AddDate now (ri_AutoDeleteDays ri2))\<rparr>
         else ri2)"

definition RecycleBin_BeforeCreate :: "RecycleBin \<Rightarrow> RecycleBin" where
  "RecycleBin_BeforeCreate rb =
     (let rb1 = (if rb_AutoDeleteDays rb = 0 then rb\<lparr>rb_AutoDeleteDays := 30\<rparr> else rb);
          rb2 = (if rb_MaxStorageSize rb1 = 0
                 then rb1\<lparr>rb_MaxStorageSize := 1073741824\<rparr> else rb1);
          rb3 = (if rb_MaxItemCount rb2 = 0 then rb2\<lparr>rb_MaxItemCount := 1000\<rparr> else rb2)
      in if rb_NotifyDays rb3 = 0 then rb3\<lparr>rb_NotifyDays := 7\<rparr> else rb3)"

definition IsDeleted :: "RecycleItem \<Rightarrow> bool" where
  "IsDeleted ri \<longleftrightarrow> ri_Status ri = RecycleStatusDeleted"

definition IsRestored :: "RecycleItem \<Rightarrow> bool" where
  "IsRestored ri \<longleftrightarrow> ri_Status ri = RecycleStatusRestored"

definition IsPermanentDeleted :: "RecycleItem \<Rightarrow> bool" where
  "IsPermanentDeleted ri \<longleftrightarrow> ri_Status ri = RecycleStatusPermanent"

definition RecycleItem_IsExpired :: "Time \<Rightarrow> RecycleItem \<Rightarrow> bool" where
  "RecycleItem_IsExpired now ri \<longleftrightarrow>
     (case ri_ExpiresAt ri of None \<Rightarrow> False | Some e \<Rightarrow> After now e)"

definition CanRestore :: "Time \<Rightarrow> RecycleItem \<Rightarrow> bool" where
  "CanRestore now ri \<longleftrightarrow>
     ri_Status ri = RecycleStatusDeleted \<and> \<not> RecycleItem_IsExpired now ri"

definition IsStorageFull :: "RecycleBin \<Rightarrow> bool" where
  "IsStorageFull rb \<longleftrightarrow> sint (rb_MaxStorageSize rb) \<le> sint (rb_CurrentStorageSize rb)"

definition IsItemCountFull :: "RecycleBin \<Rightarrow> bool" where
  "IsItemCountFull rb \<longleftrightarrow> rb_MaxItemCount rb \<le> rb_CurrentItemCount rb"


section \<open>Usage percentages (src/unnamed part 002, internal/model/config.go)\<close>

text \<open>
  The percentages are \<open>float64\<close> values. A finite \<open>float64\<close> is the real number it
  denotes, and every \<open>float64\<close> operation (the conversion from an integer, the division,
  the multiplication) returns the exact result rounded to a representable number: the
  rounding is the parameter \<open>rnd\<close> (round to nearest, ties to even, in Go). The operands
  here are conversions of 64-bit integers, so the only way to leave the finite numbers is
  a division by zero, which in Go yields an infinity or a NaN rather than a panic; the
  model makes that case visible as \<open>None\<close>. The constants \<open>0\<close> and \<open>100\<close> are
  representable exactly.
\<close>

definition float64_of_int :: "(real \<Rightarrow> real) \<Rightarrow> int \<Rightarrow> real" where
  "float64_of_int rnd i = rnd (of_int i)"

definition float64_div :: "(real \<Rightarrow> real) \<Rightarrow> real \<Rightarrow> real \<Rightarrow> real option" where
  "float64_div rnd a b = (if b = 0 then None else Some (rnd (a / b)))"

definition float64_mul :: "(real \<Rightarrow> real) \<Rightarrow> real \<Rightarrow> real \<Rightarrow> real" where
  "float64_mul rnd a b = rnd (a * b)"

definition GetStorageUsagePercent :: "(real \<Rightarrow> real) \<Rightarrow> RecycleBin \<Rightarrow> real option" where
  "GetStorageUsagePercent rnd rb =
     (if rb_MaxStorageSize rb = 0 then Some 0
      else map_option (\<lambda>q. float64_mul rnd q 100)
             (float64_div rnd (float64_of_int rnd (sint (rb_CurrentStorageSize rb)))
                (float64_of_int rnd (sint (rb_MaxStorageSize rb)))))"

definition GetItemUsagePercent :: "(real \<Rightarrow> real) \<Rightarrow> RecycleBin \<Rightarrow> real option" where
  "GetItemUsagePercent rnd rb =
     (if rb_MaxItemCount rb = 0 then Some 0
      else map_option (\<lambda>q. float64_mul rnd q 100)
             (float64_div rnd (float64_of_int rnd (rb_CurrentItemCount rb))
                (float64_of_int rnd (rb_MaxItemCount rb))))"

definition GetUsagePercent :: "(real \<Rightarrow> real) \<Rightarrow> storageConfig \<Rightarrow> real option" where
  "GetUsagePercent rnd stc =
     (if stc_QuotaSize stc = 0 then Some 0
      else map_option (\<lambda>q. float64_mul rnd q 100)
             (float64_div rnd (float64_of_int rnd (sint (stc_UsedSize stc)))
                (float64_of_int rnd (sint (stc_QuotaSize stc)))))"

section \<open>The resolver, the ledger and the purge transition, from the specification\<close>

text \<open>
  The repository declares the grant records, the quota fields, the recycle records and
  their predicates, but holds no permission resolver, no quota ledger and no purge
  operation. The definitions of this section follow the words of the specification
  (sections 3, 4.1, 4.2, 4.3, 5 and 8);
  wherever the repository has a predicate for a step (\<open>IsExpired\<close>, \<open>IsActive\<close>,
  \<open>CanManageTeam\<close>, \<open>IsPermanentDeleted\<close>, \<open>IsDeleted\<close>), they call it.
\<close>

text \<open>
  Modelled from the spec: a stored permission grant (section 3) is one of the
  repository's two grant records; its expiry, its \<open>allow\<close> flag and its \<open>granted_at\<close>
  are read from the record, the expiry with the repository's \<open>IsExpired\<close>.
\<close>

datatype Grant = FileGrant filePermission | UserGrant userPermission

fun Grant_IsExpired :: "Time \<Rightarrow> Grant \<Rightarrow> bool" where
  "Grant_IsExpired now (FileGrant fp) = filePermission_IsExpired now fp"
| "Grant_IsExpired now (UserGrant up) = userPermission_IsExpired now up"

fun Grant_Allowed :: "Grant \<Rightarrow> bool" where
  "Grant_Allowed (FileGrant fp) = fp_Allowed fp"
| "Grant_Allowed (UserGrant up) = up_Allowed up"

fun Grant_GrantedAt :: "Grant \<Rightarrow> Time" where
  "Grant_GrantedAt (FileGrant fp) = fp_GrantedAt fp"
| "Grant_GrantedAt (UserGrant up) = up_GrantedAt up"

fun Grant_ID :: "Grant \<Rightarrow> uint" where
  "Grant_ID (FileGrant fp) = fp_ID fp"
| "Grant_ID (UserGrant up) = up_ID up"

text \<open>
  Modelled from the spec: the inputs and the result of \<open>Resolve\<close> (sections 3 and 4.1).
  A principal is a user with team memberships and the default grants of the bound
  template; a resource has an individual or a team owner, may be purged, may be public
  and may carry a share expiry; a decision is \<open>Decision{allow, sourceRank}\<close>.
\<close>

record Principal =
  p_UserID :: uint
  p_Memberships :: "TeamMember list"
  p_Template :: "templatePermission list"

datatype Owner = UserOwned uint | TeamOwned uint

record Resource =
  r_ID :: uint
  r_Type :: string
  r_Owner :: Owner
  r_Purged :: bool
  r_IsPublic :: bool
  r_ShareExpiry :: "Time option"

record Decision =
  allow :: bool
  sourceRank :: nat

text \<open>
  Modelled from the spec: a principal belongs to a team when one of its memberships of
  that team is active.
\<close>

definition member_of :: "Principal \<Rightarrow> uint \<Rightarrow> bool" where
  "member_of p t \<longleftrightarrow>
     list_ex (\<lambda>m. tm_TeamID m = t \<and> TeamMember_IsActive m) (p_Memberships p)"

text \<open>
  Modelled from the spec: the specificity tier of a stored grant for a request (4.1,
  tiers 1 to 3): 1 for a grant on this exact resource to this principal, 2 for a grant
  on this exact resource to a team the principal belongs to, 3 for the principal's own
  grant with no resource id on the resource's type; \<open>None\<close> when the grant does not
  apply to the request.
\<close>

fun grant_tier :: "Principal \<Rightarrow> Resource \<Rightarrow> string \<Rightarrow> Grant \<Rightarrow> nat option" where
  "grant_tier p r a (FileGrant fp) =
     (if fp_FileID fp = r_ID r \<and> fp_Action fp = a
      then (if fp_UserID fp = Some (p_UserID p) then Some 1
            else (case fp_TeamID fp of
                    None \<Rightarrow> None
                  | Some t \<Rightarrow> if member_of p t then Some 2 else None))
      else None)"
| "grant_tier p r a (UserGrant up) =
     (if up_UserID up = p_UserID p \<and> up_Action up = a \<and> up_ResourceType up = r_Type r
      then (case up_ResourceID up of
              None \<Rightarrow> Some 3
            | Some i \<Rightarrow> if i = r_ID r then Some 1 else None)
      else None)"

text \<open>
  Modelled from the spec: the grants the resolver considers are the stored grants that
  are not expired at the time of the read and apply to the request, each with its tier.
\<close>

fun candidates ::
  "Time \<Rightarrow> Principal \<Rightarrow> Resource \<Rightarrow> string \<Rightarrow> Grant list \<Rightarrow> (nat \<times> Grant) list" where
  "candidates now p r a [] = []"
| "candidates now p r a (g # gs) =
     (if Grant_IsExpired now g then candidates now p r a gs
      else (case grant_tier p r a g of
              None \<Rightarrow> candidates now p r a gs
            | Some t \<Rightarrow> (t, g) # candidates now p r a gs))"

text \<open>
  Modelled from the spec: the most specific tier wins, and within a tier the grant with
  the latest \<open>granted_at\<close>; grants of one tier and one \<open>granted_at\<close> are sorted by
  their grant ID (section 9). The spec does not name the direction of that sort: the
  model prefers the larger ID, the grant issued later in a table whose IDs increase.
  Two grants that agree in tier, \<open>granted_at\<close> and ID (a file grant and a user grant may
  share an ID) stay in the order of the storage.
\<close>

fun better :: "nat \<times> Grant \<Rightarrow> nat \<times> Grant \<Rightarrow> bool" where
  "better (t, g) (t', g') \<longleftrightarrow>
     t < t'
     \<or> (t = t'
         \<and> (Grant_GrantedAt g' < Grant_GrantedAt g
              \<or> (Grant_GrantedAt g' = Grant_GrantedAt g
                  \<and> unat (Grant_ID g') < unat (Grant_ID g))))"

fun pick :: "(nat \<times> Grant) list \<Rightarrow> (nat \<times> Grant) option" where
  "pick [] = None"
| "pick (c # cs) =
     (case pick cs of
        None \<Rightarrow> Some c
      | Some d \<Rightarrow> if better d c then Some d else Some c)"

text \<open>
  Modelled from the spec: the ownership short-circuit (4.1). The owner passes \<open>read\<close>,
  \<open>write\<close>, \<open>delete\<close> and \<open>share\<close>; for a team-owned resource the team-role rule
  replaces individual ownership: a membership of the owning team that can manage the
  team, by the repository's \<open>CanManageTeam\<close>.
\<close>

definition owner_passes :: "Principal \<Rightarrow> Resource \<Rightarrow> string \<Rightarrow> bool" where
  "owner_passes p r a \<longleftrightarrow>
     a \<in> set [PermissionRead, PermissionWrite, PermissionDelete, PermissionShare]
     \<and> (case r_Owner r of
           UserOwned u \<Rightarrow> u = p_UserID p
         | TeamOwned t \<Rightarrow> list_ex (\<lambda>m. tm_TeamID m = t \<and> CanManageTeam m) (p_Memberships p))"

text \<open>
  Modelled from the spec: tier 4, the default of the principal's bound template for this
  action and resource type, and tier 5, the system-wide default: deny, but allow \<open>read\<close>
  on a public resource whose share has not expired.
\<close>

definition template_default :: "Principal \<Rightarrow> Resource \<Rightarrow> string \<Rightarrow> bool option" where
  "template_default p r a =
     map_option tp_Allowed
       (find (\<lambda>tp. tp_ResourceType tp = r_Type r \<and> tp_Action tp = a) (p_Template p))"

definition system_default :: "Time \<Rightarrow> Resource \<Rightarrow> string \<Rightarrow> bool" where
  "system_default now r a \<longleftrightarrow>
     a = PermissionRead \<and> r_IsPublic r
     \<and> (case r_ShareExpiry r of None \<Rightarrow> True | Some e \<Rightarrow> \<not> Before e now)"

text \<open>
  Modelled from the spec: the permission resolver, which the repository does not have:
  \<open>Resolve(principal, resource, action)\<close> of section 4.1, for a principal and a
  resource that exist, over the stored grants \<open>gs\<close>. A purged resource
  always denies; then the ownership short-circuit; then the tiers are tried from the
  most specific down: the stored grants (1 to 3), the bound template's default (4), the
  system-wide default (5). \<open>sourceRank\<close> is the tier that decided, 0 when no tier was
  consulted. The function reads the stored grants and returns a decision only: the
  storage is left as it is.
\<close>

definition Resolve :: "Time \<Rightarrow> Principal \<Rightarrow> Resource \<Rightarrow> string \<Rightarrow> Grant list \<Rightarrow> Decision" where
  "Resolve now p r a gs =
     (if r_Purged r then \<lparr>allow = False, sourceRank = 0\<rparr>
      else if owner_passes p r a then \<lparr>allow = True, sourceRank = 0\<rparr>
      else (case pick (candidates now p r a gs) of
              Some (t, g) \<Rightarrow> \<lparr>allow = Grant_Allowed g, sourceRank = t\<rparr>
            | None \<Rightarrow>
                (case template_default p r a of
                   Some b \<Rightarrow> \<lparr>allow = b, sourceRank = 4\<rparr>
                 | None \<Rightarrow> \<lparr>allow = system_default now r a, sourceRank = 5\<rparr>)))"

text \<open>
  Modelled from the spec: the state a purge touches (sections 3 and 4.3): the recycle
  entry, the lifecycle status of its resource, the owner with the quota counter, and the
  byte store's log of reclaimed storage paths; the error taxonomy of section 7; and the
  actor of a purge, the system's timer sweep or a user, the flag telling whether the
  user holds the \<open>delete\<close> permission and the elevated permanent-delete grant.
\<close>

datatype Lifecycle = Active | Recycled | Purged

datatype engine_error =
  NotFound | Denied | QuotaExceeded | StaleState | ParentGone | NameConflict | Busy | Expired

datatype Actor = SystemTimer | ActorUser uint bool

text \<open>
  Modelled from the spec: the Quota Ledger, which the repository does not have (section
  4.2): \<open>Reserve(principal, teamOrNil, deltaBytes)\<close> and
  \<open>Release(principal, teamOrNil, deltaBytes)\<close> on the quota fields of the repository's
  \<open>User\<close> and \<open>Team\<close> records. \<open>deltaBytes\<close> is a count of bytes. \<open>Reserve\<close> fails
  with \<open>QuotaExceeded\<close> when \<open>used + delta > total\<close>; for a team resource the team's
  quota is checked in the same step, and either both counters move or neither does.
  \<open>Release\<close> has no failure, and the Ledger is what keeps \<open>quota_used\<close> non-negative
  (section 3): it releases at most what is used.
\<close>

definition Reserve :: "User \<Rightarrow> Team option \<Rightarrow> nat \<Rightarrow> engine_error + User \<times> Team option" where
  "Reserve u team delta =
     (if sint (u_StorageQuota u) < sint (u_UsedStorage u) + int delta then Inl QuotaExceeded
      else (case team of
              None \<Rightarrow> Inr (u\<lparr>u_UsedStorage := u_UsedStorage u + of_nat delta\<rparr>, None)
            | Some t \<Rightarrow>
                if sint (t_StorageLimit t) < sint (t_StorageUsed t) + int delta
                then Inl QuotaExceeded
                else Inr (u\<lparr>u_UsedStorage := u_UsedStorage u + of_nat delta\<rparr>,
                          Some (t\<lparr>t_StorageUsed := t_StorageUsed t + of_nat delta\<rparr>))))"

definition release_bytes :: "int64 \<Rightarrow> nat \<Rightarrow> int64" where
  "release_bytes used delta = (if sint used \<le> int delta then 0 else used - of_nat delta)"

definition Release :: "User \<Rightarrow> Team option \<Rightarrow> nat \<Rightarrow> User \<times> Team option" where
  "Release u team delta =
     (u\<lparr>u_UsedStorage := release_bytes (u_UsedStorage u) delta\<rparr>,
      map_option (\<lambda>t. t\<lparr>t_StorageUsed := release_bytes (t_StorageUsed t) delta\<rparr>) team)"

text \<open>
  Modelled from the spec: the states the engine reaches are those a sequence of Ledger
  operations produces; a \<open>Reserve\<close> that fails reports its error to the caller and
  leaves both counters as they were. The quota invariant of section 3 is \<open>quota_ok\<close>.
\<close>

datatype LedgerOp = ReserveOp nat | ReleaseOp nat

fun ledger_step :: "User \<times> Team option \<Rightarrow> LedgerOp \<Rightarrow> User \<times> Team option" where
  "ledger_step (u, team) (ReserveOp delta) =
     (case Reserve u team delta of Inl e \<Rightarrow> (u, team) | Inr st \<Rightarrow> st)"
| "ledger_step (u, team) (ReleaseOp delta) = Release u team delta"

definition ledger_run :: "User \<times> Team option \<Rightarrow> LedgerOp list \<Rightarrow> User \<times> Team option" where
  "ledger_run st ops = foldl ledger_step st ops"

definition quota_ok :: "User \<Rightarrow> bool" where
  "quota_ok u \<longleftrightarrow>
     0 \<le> sint (u_UsedStorage u) \<and> sint (u_UsedStorage u) \<le> sint (u_StorageQuota u)"

record EngineState =
  es_entry :: RecycleItem
  es_resource :: Lifecycle
  es_owner :: User
  es_reclaimed :: "string list"

text \<open>
  Modelled from the spec: who may purge (4.3). The timer sweep may purge once
  \<open>now \<ge> expires_at\<close>; a user may purge when holding the two permissions.
\<close>

fun purge_authorised :: "Time \<Rightarrow> Actor \<Rightarrow> RecycleItem \<Rightarrow> bool" where
  "purge_authorised now SystemTimer ri =
     (case ri_ExpiresAt ri of None \<Rightarrow> False | Some e \<Rightarrow> e \<le> now)"
| "purge_authorised now (ActorUser uid elevated) ri = elevated"

fun actor_id :: "Actor \<Rightarrow> uint option" where
  "actor_id SystemTimer = None"
| "actor_id (ActorUser uid elevated) = Some uid"

text \<open>
  Modelled from the spec: the purge operation, which the repository does not have:
  \<open>Purge(entry, actor)\<close> of section 4.3. An entry that is already
  \<open>permanent\<close> is left alone and the call succeeds (section 8; the status is checked
  before acting, section 5). An entry that is not open (not \<open>deleted\<close>) is a stale state.
  Otherwise the resource becomes \<open>purged\<close>, the bytes are reclaimed, \<open>Release\<close> is
  called on the Ledger with the entry's size for the owner, and the entry becomes
  \<open>permanent\<close>.
\<close>

definition Purge :: "Time \<Rightarrow> Actor \<Rightarrow> EngineState \<Rightarrow> engine_error + EngineState" where
  "Purge now actor s =
     (if IsPermanentDeleted (es_entry s) then Inr s
      else if \<not> IsDeleted (es_entry s) then Inl StaleState
      else if \<not> purge_authorised now actor (es_entry s) then Inl Denied
      else Inr (s\<lparr>es_entry := (es_entry s)\<lparr>ri_Status := RecycleStatusPermanent,
                                            ri_PermanentDeletedAt := Some now,
                                            ri_PermanentDeletedBy := actor_id actor\<rparr>,
                  es_resource := Purged,
                  es_owner := fst (Release (es_owner s) None
                                     (nat (sint (ri_FileSize (es_entry s))))),
                  es_reclaimed := es_reclaimed s @ [ri_StoragePath (es_entry s)]\<rparr>))"

section \<open>Concrete values for the examples\<close>

definition example_item :: RecycleItem where
  "example_item =
     \<lparr>ri_DeletedAt = 0, ri_OriginalParentID = None, ri_RestoredAt = None,
      ri_RestoredBy = None, ri_PermanentDeletedAt = None, ri_PermanentDeletedBy = None,
      ri_ExpiresAt = None, ri_OriginalPath = ''/docs'', ri_StoragePath = ''/store/7'',
      ri_Type = ''file'', ri_Status = ''deleted'', ri_FileSize = 80, ri_ID = 7,
      ri_UserID = 1, ri_OriginalFileID = 3, ri_DeletedBy = 1, ri_AutoDeleteDays = 30\<rparr>"

definition example_user :: User where
  "example_user =
     \<lparr>u_ID = 1, u_UserType = ''normal'', u_Status = ''active'', u_StorageQuota = 100,
      u_UsedStorage = 80, u_PermissionTemplateID = None, u_LockedUntil = None\<rparr>"

definition example_config :: storageConfig where
  "example_config =
     \<lparr>stc_MaxFileSize = 104857600, stc_TotalFiles = 0, stc_TotalSize = 0,
      stc_UsedSize = 80, stc_QuotaSize = 100, stc_Provider = ''local'',
      stc_Status = ''active'', stc_DefaultFlag = True, stc_EnabledFlag = True\<rparr>"

definition example_bin :: RecycleBin where
  "example_bin =
     \<lparr>rb_ID = 1, rb_UserID = 1, rb_IsEnabled = True, rb_AutoDeleteDays = 30,
      rb_MaxStorageSize = 1073741824, rb_CurrentStorageSize = 536870912,
      rb_MaxItemCount = 1000, rb_CurrentItemCount = 250, rb_NotifyBeforeDelete = True,
      rb_NotifyDays = 0\<rparr>"

text \<open>
  The scenario of the specification's section 8: a file owned by team 9; user 1 is an
  active plain member of team 9; the only stored grant allows team 9 to \<open>share\<close> the
  file and expires one day after the epoch.
\<close>

definition example_principal :: Principal where
  "example_principal =
     \<lparr>p_UserID = 1,
      p_Memberships = [\<lparr>tm_ID = 4, tm_TeamID = 9, tm_UserID = 1, tm_Role = ''member'',
                         tm_Status = ''active''\<rparr>],
      p_Template = []\<rparr>"

definition example_resource :: Resource where
  "example_resource =
     \<lparr>r_ID = 3, r_Type = ''file'', r_Owner = TeamOwned 9, r_Purged = False,
      r_IsPublic = False, r_ShareExpiry = None\<rparr>"

definition example_grant :: Grant where
  "example_grant =
     FileGrant \<lparr>fp_ID = 5, fp_FileID = 3, fp_UserID = None, fp_TeamID = Some 9,
                fp_Action = ''share'', fp_Allowed = True, fp_GrantedBy = Some 2,
                fp_GrantedAt = 0, fp_ExpiresAt = Some 86400000000000\<rparr>"

definition example_state :: EngineState where
  "example_state =
     \<lparr>es_entry = example_item\<lparr>ri_ExpiresAt := Some 1000\<rparr>, es_resource = Recycled,
      es_owner = example_user, es_reclaimed = []\<rparr>"

section \<open>Signed 64-bit arithmetic\<close>

lemma sint64_bounds:
  fixes a :: int64
  shows "- (2 ^ 63) \<le> sint a" and "sint a < 2 ^ 63"
  using sint_ge [of a] sint_lt [of a] by simp_all

lemma sint_add_in_range:
  fixes a b :: int64
  assumes "- (2 ^ 63) \<le> sint a + sint b" and "sint a + sint b < 2 ^ 63"
  shows "sint (a + b) = sint a + sint b"
  using assms by (simp add: sint_word_ariths signed_take_bit_int_eq_self)

lemma sint_sub_in_range:
  fixes a b :: int64
  assumes "- (2 ^ 63) \<le> sint a - sint b" and "sint a - sint b < 2 ^ 63"
  shows "sint (a - b) = sint a - sint b"
  using assms by (simp add: sint_word_ariths signed_take_bit_int_eq_self)

section \<open>Team-role management\<close>

text \<open>
  Claim C7. A team member can manage the team exactly when the member's status is
  \<open>active\<close> and the role is \<open>owner\<close> or \<open>admin\<close>, which is the same as being active
  and passing \<open>IsAdmin\<close>; \<open>IsAdmin\<close> holds of owners and admins. A member whose role is
  \<open>member\<close> or \<open>viewer\<close> cannot manage, whatever the status, and a member whose status
  is \<open>invited\<close>, \<open>inactive\<close> or \<open>left\<close> cannot manage, whatever the role.
\<close>

theorem CanManageTeam_iff:
  "(CanManageTeam tm \<longleftrightarrow>
      tm_Status tm = ''active'' \<and> (tm_Role tm = ''owner'' \<or> tm_Role tm = ''admin''))
   \<and> (CanManageTeam tm \<longleftrightarrow> TeamMember_IsActive tm \<and> TeamMember_IsAdmin tm)
   \<and> (TeamMember_IsAdmin tm \<longleftrightarrow> TeamMember_IsOwner tm \<or> tm_Role tm = ''admin'')
   \<and> \<not> CanManageTeam (tm\<lparr>tm_Role := TeamMemberRoleMember\<rparr>)
   \<and> \<not> CanManageTeam (tm\<lparr>tm_Role := TeamMemberRoleViewer\<rparr>)
   \<and> \<not> CanManageTeam (tm\<lparr>tm_Status := TeamMemberStatusInvited\<rparr>)
   \<and> \<not> CanManageTeam (tm\<lparr>tm_Status := TeamMemberStatusInactive\<rparr>)
   \<and> \<not> CanManageTeam (tm\<lparr>tm_Status := TeamMemberStatusLeft\<rparr>)"
  by (auto simp add: CanManageTeam_def TeamMember_IsActive_def TeamMember_IsAdmin_def
      TeamMember_IsOwner_def team_consts)

section \<open>Restoring a recycle entry\<close>

text \<open>
  Claim C1, as the code has it. \<open>CanRestore\<close> holds exactly when the status is
  \<open>deleted\<close> and the entry is not expired, and an entry is expired exactly when its
  \<open>expires_at\<close> is set and the current time is strictly after it. So a restore is
  permitted up to and including the instant \<open>expires_at\<close>, and an entry with no
  \<open>expires_at\<close> never expires. An entry whose status is \<open>restored\<close> or \<open>permanent\<close>
  is never restorable.
\<close>

theorem CanRestore_iff:
  "(CanRestore now ri \<longleftrightarrow>
      ri_Status ri = ''deleted''
      \<and> (case ri_ExpiresAt ri of None \<Rightarrow> True | Some e \<Rightarrow> now \<le> e))
   \<and> (RecycleItem_IsExpired now ri \<longleftrightarrow> (\<exists>e. ri_ExpiresAt ri = Some e \<and> e < now))
   \<and> \<not> CanRestore now (ri\<lparr>ri_Status := RecycleStatusRestored\<rparr>)
   \<and> \<not> CanRestore now (ri\<lparr>ri_Status := RecycleStatusPermanent\<rparr>)"
  by (auto simp add: CanRestore_def RecycleItem_IsExpired_def After_def recycle_consts
      split: option.splits)

text \<open>
  Claim C1 as stated fails at the boundary: an entry with status \<open>deleted\<close> whose
  \<open>expires_at\<close> is the instant 1000 can still be restored at the instant 1000, which
  is not strictly before \<open>expires_at\<close>.
\<close>

theorem CanRestore_at_expiry:
  "CanRestore 1000 (example_item\<lparr>ri_Status := ''deleted'', ri_ExpiresAt := Some 1000\<rparr>)
   \<and> ri_ExpiresAt (example_item\<lparr>ri_Status := ''deleted'', ri_ExpiresAt := Some 1000\<rparr>)
       = Some 1000
   \<and> \<not> ((1000 :: Time) < 1000)"
  by (simp add: CanRestore_def RecycleItem_IsExpired_def After_def recycle_consts)

section \<open>The time library in the UTC location\<close>




section \<open>Creating a recycle entry\<close>




text \<open>
  The expiry is counted from the clock at the creation; the entry's \<open>DeletedAt\<close> field
  plays no part in it.
\<close>

lemma RecycleItem_BeforeCreate_ignores_DeletedAt:
  "RecycleItem_BeforeCreate AddDate now (ri\<lparr>ri_DeletedAt := d\<rparr>)
   = (RecycleItem_BeforeCreate AddDate now ri)\<lparr>ri_DeletedAt := d\<rparr>"
  by (simp add: RecycleItem_BeforeCreate_def Let_def)

text \<open>
  The scenario of the specification, in the UTC location: an entry created with nothing
  set gets the status \<open>deleted\<close> and expires 30 days after its creation.
\<close>

lemma RecycleItem_BeforeCreate_scenario:
  "RecycleItem_BeforeCreate AddDate_UTC 5000
     (example_item\<lparr>ri_Status := [], ri_AutoDeleteDays := 0, ri_ExpiresAt := None\<rparr>)
   = example_item\<lparr>ri_Status := ''deleted'', ri_AutoDeleteDays := 30,
                   ri_ExpiresAt := Some (5000 + 30 * 86400000000000)\<rparr>"
  by (simp add: RecycleItem_BeforeCreate_def Let_def recycle_consts example_item_def
      AddDate_UTC_def wrap64_def unixToInternal_def)

section \<open>The notification date\<close>




section \<open>The quota boundary of an upload\<close>

text \<open>
  Claim C2, as the code has it. For a storage configuration that is enabled and active,
  with a positive quota, and a requested size no larger than the per-file maximum,
  \<open>CanUpload\<close> refuses exactly when \<open>used + size > quota\<close>, provided the sum
  \<open>used + size\<close> lies in the range of \<open>int64\<close>, in which the code computes it; in
  particular a size that makes \<open>used + size\<close> equal to the quota is accepted.
\<close>

theorem CanUpload_quota_boundary:
  assumes enabled: "storageConfig_IsEnabled stc"
    and active: "storageConfig_IsActive stc"
    and quota: "0 < sint (stc_QuotaSize stc)"
    and size: "sint fileSize \<le> sint (stc_MaxFileSize stc)"
    and lo: "- (2 ^ 63) \<le> sint (stc_UsedSize stc) + sint fileSize"
    and hi: "sint (stc_UsedSize stc) + sint fileSize < 2 ^ 63"
  shows "(\<not> CanUpload stc fileSize \<longleftrightarrow>
            sint (stc_QuotaSize stc) < sint (stc_UsedSize stc) + sint fileSize)
         \<and> (sint (stc_UsedSize stc) + sint fileSize = sint (stc_QuotaSize stc)
              \<longrightarrow> CanUpload stc fileSize)"
proof -
  have sum: "sint (stc_UsedSize stc + fileSize) = sint (stc_UsedSize stc) + sint fileSize"
    using lo hi by (rule sint_add_in_range)
  from enabled active quota size show ?thesis
    by (simp add: CanUpload_def sum)
qed

theorem CanUpload_quota_boundary_witness:
  "storageConfig_IsEnabled example_config \<and> storageConfig_IsActive example_config
   \<and> 0 < sint (stc_QuotaSize example_config)
   \<and> sint (20 :: int64) \<le> sint (stc_MaxFileSize example_config)
   \<and> sint (stc_UsedSize example_config) + sint (20 :: int64)
       = sint (stc_QuotaSize example_config)
   \<and> CanUpload example_config 20"
proof -
  have h: "storageConfig_IsEnabled example_config" "storageConfig_IsActive example_config"
    "0 < sint (stc_QuotaSize example_config)"
    "sint (20 :: int64) \<le> sint (stc_MaxFileSize example_config)"
    "- (2 ^ 63) \<le> sint (stc_UsedSize example_config) + sint (20 :: int64)"
    "sint (stc_UsedSize example_config) + sint (20 :: int64) < 2 ^ 63"
    by (simp_all add: example_config_def storageConfig_IsEnabled_def
        storageConfig_IsActive_def ConfigStatusActive_def)
  have e: "sint (stc_UsedSize example_config) + sint (20 :: int64)
       = sint (stc_QuotaSize example_config)"
    by (simp add: example_config_def)
  from CanUpload_quota_boundary [OF h] e h show ?thesis by simp
qed

text \<open>
  Claim C2 as stated fails where the sum leaves the range of \<open>int64\<close>: with
  \<open>used = quota = 2^63 - 1\<close> and one more byte requested, \<open>used + 1\<close> exceeds the quota,
  but the code's sum wraps around to \<open>- 2^63\<close> and the upload is accepted.
\<close>

theorem CanUpload_overflow:
  "storageConfig_IsEnabled
     (example_config\<lparr>stc_UsedSize := 9223372036854775807, stc_QuotaSize := 9223372036854775807\<rparr>)
   \<and> storageConfig_IsActive
     (example_config\<lparr>stc_UsedSize := 9223372036854775807, stc_QuotaSize := 9223372036854775807\<rparr>)
   \<and> 0 < sint (9223372036854775807 :: int64)
   \<and> sint (1 :: int64) \<le> sint (stc_MaxFileSize example_config)
   \<and> sint (9223372036854775807 :: int64) < sint (9223372036854775807 :: int64) + sint (1 :: int64)
   \<and> CanUpload
     (example_config\<lparr>stc_UsedSize := 9223372036854775807, stc_QuotaSize := 9223372036854775807\<rparr>) 1"
  by (simp add: CanUpload_def example_config_def storageConfig_IsEnabled_def
      storageConfig_IsActive_def ConfigStatusActive_def)

text \<open>
  The user's own predicate has no requested size: \<open>IsStorageExceeded\<close> holds exactly
  when not even one more byte fits under the user's quota.
\<close>

lemma User_IsStorageExceeded_iff_no_room:
  "User_IsStorageExceeded u \<longleftrightarrow>
     sint (u_StorageQuota u) < sint (u_UsedStorage u) + 1"
  by (auto simp add: User_IsStorageExceeded_def)

section \<open>The quota invariant\<close>


text \<open>
  The function itself does not keep the bound: for a record written with more used than
  its quota it returns a negative number. The bound is the Ledger's doing.
\<close>

lemma GetAvailableStorage_negative:
  "sint (User_GetAvailableStorage (example_user\<lparr>u_UsedStorage := 180\<rparr>)) = - 80"
  by (simp add: User_GetAvailableStorage_def example_user_def)

lemma sint_of_nat_small:
  assumes "int n < 2 ^ 63"
  shows "sint (of_nat n :: int64) = int n"
proof -
  have "sint (of_nat n :: int64) = signed_take_bit 63 (int n)"
    by (simp add: signed_of_nat)
  also have "\<dots> = int n"
    using assms by (intro signed_take_bit_int_eq_self) simp_all
  finally show ?thesis .
qed


lemma release_bytes_bounds:
  assumes "0 \<le> sint used"
  shows "0 \<le> sint (release_bytes used delta)"
    and "sint (release_bytes used delta) \<le> sint used"
proof -
  have eq: "sint (used - of_nat delta) = sint used - int delta" if "int delta < sint used"
  proof -
    have used_hi: "sint used < 2 ^ 63" by (rule sint64_bounds)
    with that have "int delta < 2 ^ 63" by linarith
    then have delta: "sint (of_nat delta :: int64) = int delta"
      by (rule sint_of_nat_small)
    have "sint (used - of_nat delta) = sint used - sint (of_nat delta :: int64)"
      using assms that used_hi delta by (intro sint_sub_in_range) linarith+
    with delta show ?thesis by simp
  qed
  show "0 \<le> sint (release_bytes used delta)"
    using assms eq by (simp add: release_bytes_def)
  show "sint (release_bytes used delta) \<le> sint used"
    using assms eq by (simp add: release_bytes_def)
qed


lemma Release_keeps_quota:
  assumes ok: "quota_ok u"
  shows "quota_ok (fst (Release u team delta))"
proof -
  from ok have used: "0 \<le> sint (u_UsedStorage u)"
    and quota: "sint (u_UsedStorage u) \<le> sint (u_StorageQuota u)"
    by (simp_all add: quota_ok_def)
  from release_bytes_bounds [OF used, of delta] quota show ?thesis
    by (simp add: Release_def quota_ok_def)
qed






lemma ledger_run_scenario:
  "map (\<lambda>ops. u_UsedStorage
          (fst (ledger_run (User_BeforeCreate (example_user\<lparr>u_UsedStorage := 0\<rparr>), None) ops)))
     [[ReserveOp 80], [ReserveOp 80, ReserveOp 30], [ReserveOp 80, ReserveOp 30, ReleaseOp 80],
      [ReserveOp 80, ReserveOp 30, ReleaseOp 80, ReleaseOp 50]]
   = [80, 80, 0, 0]"
  by (simp add: ledger_run_def Reserve_def Release_def release_bytes_def User_BeforeCreate_def
      Let_def example_user_def)

text \<open>
  \<open>Purge\<close> writes the owner's counter through \<open>Release\<close> only, so it keeps the
  invariant too.
\<close>

lemma Purge_keeps_quota:
  assumes "quota_ok (es_owner s)" and "Purge now actor s = Inr s'"
  shows "quota_ok (es_owner s')"
  using assms by (auto simp add: Purge_def Release_keeps_quota split: if_splits)

section \<open>The capacity predicates of a recycle bin\<close>

text \<open>
  \<open>IsStorageFull\<close> holds exactly when \<open>CurrentStorageSize \<ge> MaxStorageSize\<close> and
  \<open>IsItemCountFull\<close> exactly when \<open>CurrentItemCount \<ge> MaxItemCount\<close>, so a bin exactly
  at its capacity counts as full. \<open>RecycleBin.BeforeCreate\<close> replaces a zero
  \<open>MaxStorageSize\<close> by 1 GiB and a zero \<open>MaxItemCount\<close> by 1000 and leaves the two
  current counters as they were given.
\<close>

lemma capacity_predicates:
  "(IsStorageFull rb \<longleftrightarrow> sint (rb_MaxStorageSize rb) \<le> sint (rb_CurrentStorageSize rb))
   \<and> (IsItemCountFull rb \<longleftrightarrow> rb_MaxItemCount rb \<le> rb_CurrentItemCount rb)
   \<and> rb_CurrentStorageSize (RecycleBin_BeforeCreate rb) = rb_CurrentStorageSize rb
   \<and> rb_CurrentItemCount (RecycleBin_BeforeCreate rb) = rb_CurrentItemCount rb
   \<and> rb_MaxStorageSize (RecycleBin_BeforeCreate rb) =
        (if rb_MaxStorageSize rb = 0 then 1073741824 else rb_MaxStorageSize rb)
   \<and> rb_MaxItemCount (RecycleBin_BeforeCreate rb) =
        (if rb_MaxItemCount rb = 0 then 1000 else rb_MaxItemCount rb)"
  by (simp add: IsStorageFull_def IsItemCountFull_def RecycleBin_BeforeCreate_def Let_def)

section \<open>Usage percentages are total\<close>

text \<open>
  Rounding to nearest is monotone and keeps 1 and -1, so it sends a non-zero integer to
  a non-zero number: the conversion of a non-zero maximum is a non-zero divisor.
\<close>

lemma rnd_int_nonzero:
  fixes rnd :: "real \<Rightarrow> real"
  assumes mono: "\<And>x y. x \<le> y \<Longrightarrow> rnd x \<le> rnd y"
    and one: "rnd 1 = 1" and minus_one: "rnd (- 1) = - 1"
    and nz: "i \<noteq> (0 :: int)"
  shows "rnd (of_int i) \<noteq> 0"
proof (cases "0 < i")
  case True
  then have "(1 :: real) \<le> of_int i" by simp
  then have "rnd 1 \<le> rnd (of_int i)" by (rule mono)
  with one show ?thesis by simp
next
  case False
  with nz have "of_int i \<le> (- 1 :: real)" by simp
  then have "rnd (of_int i) \<le> rnd (- 1)" by (rule mono)
  with minus_one show ?thesis by simp
qed

text \<open>
  Claim C10. For every recycle bin and every storage configuration, and for every
  rounding that is monotone and keeps 1 and -1, each usage-percentage query returns a
  finite number (no division by zero is performed): 0 when the configured maximum
  (\<open>MaxStorageSize\<close>, \<open>MaxItemCount\<close>, \<open>QuotaSize\<close>) is 0, and otherwise the
  \<open>float64\<close> value of \<open>current / maximum * 100\<close>, each operation rounded.
\<close>

theorem usage_percent_total:
  fixes rnd :: "real \<Rightarrow> real"
  assumes mono: "\<And>x y. x \<le> y \<Longrightarrow> rnd x \<le> rnd y"
    and one: "rnd 1 = 1" and minus_one: "rnd (- 1) = - 1"
  shows "GetStorageUsagePercent rnd rb =
      Some (if rb_MaxStorageSize rb = 0 then 0
            else rnd (rnd (rnd (of_int (sint (rb_CurrentStorageSize rb)))
                           / rnd (of_int (sint (rb_MaxStorageSize rb)))) * 100))
    \<and> GetItemUsagePercent rnd rb =
      Some (if rb_MaxItemCount rb = 0 then 0
            else rnd (rnd (rnd (of_int (rb_CurrentItemCount rb))
                           / rnd (of_int (rb_MaxItemCount rb))) * 100))
    \<and> GetUsagePercent rnd stc =
      Some (if stc_QuotaSize stc = 0 then 0
            else rnd (rnd (rnd (of_int (sint (stc_UsedSize stc)))
                           / rnd (of_int (sint (stc_QuotaSize stc)))) * 100))"
proof -
  have nz: "rnd (of_int i) \<noteq> 0" if "i \<noteq> 0" for i :: int
    using mono one minus_one that by (rule rnd_int_nonzero)
  have "rnd (of_int (sint w)) \<noteq> 0" if "w \<noteq> 0" for w :: int64
    using that by (intro nz) (simp add: signed_eq_0_iff)
  then have w: "rnd (signed w) \<noteq> 0" if "w \<noteq> 0" for w :: int64
    using that by simp
  have 1: "GetStorageUsagePercent rnd rb =
      Some (if rb_MaxStorageSize rb = 0 then 0
            else rnd (rnd (rnd (of_int (sint (rb_CurrentStorageSize rb)))
                           / rnd (of_int (sint (rb_MaxStorageSize rb)))) * 100))"
    by (simp add: GetStorageUsagePercent_def float64_div_def float64_mul_def float64_of_int_def w)
  have 2: "GetItemUsagePercent rnd rb =
      Some (if rb_MaxItemCount rb = 0 then 0
            else rnd (rnd (rnd (of_int (rb_CurrentItemCount rb))
                           / rnd (of_int (rb_MaxItemCount rb))) * 100))"
    by (simp add: GetItemUsagePercent_def float64_div_def float64_mul_def float64_of_int_def nz)
  have 3: "GetUsagePercent rnd stc =
      Some (if stc_QuotaSize stc = 0 then 0
            else rnd (rnd (rnd (of_int (sint (stc_UsedSize stc)))
                           / rnd (of_int (sint (stc_QuotaSize stc)))) * 100))"
    by (simp add: GetUsagePercent_def float64_div_def float64_mul_def float64_of_int_def w)
  from 1 2 3 show ?thesis by (intro conjI)
qed

theorem usage_percent_total_witness:
  "GetStorageUsagePercent (\<lambda>x. x) example_bin = Some 50
   \<and> GetItemUsagePercent (\<lambda>x. x) example_bin = Some 25
   \<and> GetUsagePercent (\<lambda>x. x) (example_config\<lparr>stc_QuotaSize := 0\<rparr>) = Some 0"
  using usage_percent_total [of "\<lambda>x. x" example_bin "example_config\<lparr>stc_QuotaSize := 0\<rparr>"]
  by (simp add: example_bin_def example_config_def)

section \<open>Expired grants are inert\<close>

lemma candidates_drop_expired:
  "candidates now p r a (filter (\<lambda>g. \<not> Grant_IsExpired now g) gs) = candidates now p r a gs"
  by (induction gs) (simp_all split: option.splits)

lemma candidates_only_expired:
  "candidates now p r a (filter (Grant_IsExpired now) gs) = []"
  by (induction gs) simp_all

text \<open>
  Claim C4. A \<open>userPermission\<close> or \<open>filePermission\<close> counts as expired exactly when its
  \<open>expires_at\<close> is set and lies strictly before the current time; a grant with no
  \<open>expires_at\<close> never expires. The resolver treats expired grants as absent: removing
  every expired grant from the storage changes no decision, and a storage that holds
  expired grants only resolves as the empty storage does, so no decision comes from an
  expired grant, which nevertheless stays in the storage.
\<close>

theorem expired_grants_inert:
  "(userPermission_IsExpired now up \<longleftrightarrow> (\<exists>e. up_ExpiresAt up = Some e \<and> e < now))
   \<and> (filePermission_IsExpired now fp \<longleftrightarrow> (\<exists>e. fp_ExpiresAt fp = Some e \<and> e < now))
   \<and> \<not> userPermission_IsExpired now (up\<lparr>up_ExpiresAt := None\<rparr>)
   \<and> \<not> filePermission_IsExpired now (fp\<lparr>fp_ExpiresAt := None\<rparr>)
   \<and> Resolve now p r a (filter (\<lambda>g. \<not> Grant_IsExpired now g) gs) = Resolve now p r a gs
   \<and> Resolve now p r a (filter (Grant_IsExpired now) gs) = Resolve now p r a []"
proof -
  have code:
    "userPermission_IsExpired now up \<longleftrightarrow> (\<exists>e. up_ExpiresAt up = Some e \<and> e < now)"
    "filePermission_IsExpired now fp \<longleftrightarrow> (\<exists>e. fp_ExpiresAt fp = Some e \<and> e < now)"
    "\<not> userPermission_IsExpired now (up\<lparr>up_ExpiresAt := None\<rparr>)"
    "\<not> filePermission_IsExpired now (fp\<lparr>fp_ExpiresAt := None\<rparr>)"
    by (simp_all add: userPermission_IsExpired_def filePermission_IsExpired_def Before_def
        split: option.splits)
  have resolver:
    "Resolve now p r a (filter (\<lambda>g. \<not> Grant_IsExpired now g) gs) = Resolve now p r a gs"
    "Resolve now p r a (filter (Grant_IsExpired now) gs) = Resolve now p r a []"
    by (simp_all add: Resolve_def candidates_drop_expired candidates_only_expired)
  from code resolver show ?thesis by (intro conjI)
qed

text \<open>
  The scenario of section 8: two days after the epoch the team's share grant has been
  expired for a day, and the member's request to share is denied by the system-wide
  default, with the grant still stored; half a day after the epoch the same grant
  decides, at tier 2.
\<close>

lemma Resolve_expired_share_grant:
  "Resolve (2 * 86400000000000) example_principal example_resource ''share'' [example_grant]
     = \<lparr>allow = False, sourceRank = 5\<rparr>
   \<and> Resolve 43200000000000 example_principal example_resource ''share'' [example_grant]
     = \<lparr>allow = True, sourceRank = 2\<rparr>"
  by (simp add: Resolve_def example_principal_def example_resource_def example_grant_def
      owner_passes_def member_of_def CanManageTeam_def TeamMember_IsActive_def team_consts
      filePermission_IsExpired_def Before_def template_default_def system_default_def
      PermissionRead_def PermissionWrite_def PermissionDelete_def PermissionShare_def)

text \<open>
  Two live grants of one tier and one \<open>granted_at\<close>: the one with the larger grant ID
  decides, in whichever order the two are stored.
\<close>

lemma Resolve_tie_by_grant_ID:
  "Resolve 0 example_principal example_resource ''share''
     [example_grant,
      FileGrant \<lparr>fp_ID = 6, fp_FileID = 3, fp_UserID = None, fp_TeamID = Some 9,
                 fp_Action = ''share'', fp_Allowed = False, fp_GrantedBy = Some 2,
                 fp_GrantedAt = 0, fp_ExpiresAt = None\<rparr>]
     = \<lparr>allow = False, sourceRank = 2\<rparr>
   \<and> Resolve 0 example_principal example_resource ''share''
     [FileGrant \<lparr>fp_ID = 6, fp_FileID = 3, fp_UserID = None, fp_TeamID = Some 9,
                 fp_Action = ''share'', fp_Allowed = False, fp_GrantedBy = Some 2,
                 fp_GrantedAt = 0, fp_ExpiresAt = None\<rparr>,
      example_grant]
     = \<lparr>allow = False, sourceRank = 2\<rparr>"
  by (simp add: Resolve_def example_principal_def example_resource_def example_grant_def
      owner_passes_def member_of_def CanManageTeam_def TeamMember_IsActive_def team_consts
      filePermission_IsExpired_def Before_def
      PermissionRead_def PermissionWrite_def PermissionDelete_def PermissionShare_def)

section \<open>Purging is idempotent\<close>

lemma Purge_result_permanent:
  "Purge now actor s = Inr s' \<Longrightarrow> IsPermanentDeleted (es_entry s')"
  by (auto simp add: Purge_def IsPermanentDeleted_def split: if_splits)

lemma Purge_permanent_noop:
  "IsPermanentDeleted (es_entry s) \<Longrightarrow> Purge now actor s = Inr s"
  by (simp add: Purge_def)

text \<open>
  Claim C9. Purging an entry whose status is already \<open>permanent\<close> succeeds and leaves
  the whole state (the entry, the resource, the owner's quota counter, the byte store's
  log) unchanged; and a purge followed by a second purge, at any later time and by any
  actor, gives what the first purge alone gives.
\<close>

theorem Purge_idempotent:
  "(IsPermanentDeleted (es_entry s) \<longrightarrow> Purge now actor s = Inr s)
   \<and> (case Purge now actor s of
         Inl e \<Rightarrow> Inl e
       | Inr s' \<Rightarrow> Purge now' actor' s') = Purge now actor s"
proof (cases "Purge now actor s")
  case (Inl e)
  then show ?thesis by (auto simp add: Purge_permanent_noop)
next
  case (Inr s')
  then have "Purge now' actor' s' = Inr s'"
    by (intro Purge_permanent_noop) (rule Purge_result_permanent)
  with Inr show ?thesis by (auto simp add: Purge_permanent_noop)
qed

theorem Purge_idempotent_witness:
  "IsPermanentDeleted
     (es_entry (example_state\<lparr>es_entry := example_item\<lparr>ri_Status := ''permanent''\<rparr>\<rparr>))
   \<and> Purge 2000 SystemTimer
        (example_state\<lparr>es_entry := example_item\<lparr>ri_Status := ''permanent''\<rparr>\<rparr>)
      = Inr (example_state\<lparr>es_entry := example_item\<lparr>ri_Status := ''permanent''\<rparr>\<rparr>)"
proof -
  have h: "IsPermanentDeleted
     (es_entry (example_state\<lparr>es_entry := example_item\<lparr>ri_Status := ''permanent''\<rparr>\<rparr>))"
    by (simp add: IsPermanentDeleted_def RecycleStatusPermanent_def)
  from Purge_idempotent
    [of "example_state\<lparr>es_entry := example_item\<lparr>ri_Status := ''permanent''\<rparr>\<rparr>"
      2000 SystemTimer] h
  show ?thesis by simp
qed

text \<open>
  The scenario of section 8: the timer sweep purges the expired entry of 80 bytes, the
  owner's used quota drops from 80 to 0 and the bytes are reclaimed once; a second sweep
  changes nothing and reclaims nothing more.
\<close>

lemma Purge_sweep_scenario:
  "Purge 2000 SystemTimer example_state =
     Inr \<lparr>es_entry = example_item\<lparr>ri_ExpiresAt := Some 1000, ri_Status := ''permanent'',
                                  ri_PermanentDeletedAt := Some 2000\<rparr>,
          es_resource = Purged,
          es_owner = example_user\<lparr>u_UsedStorage := 0\<rparr>,
          es_reclaimed = [''/store/7'']\<rparr>
   \<and> (case Purge 2000 SystemTimer example_state of
         Inl e \<Rightarrow> Inl e
       | Inr s' \<Rightarrow> Purge 3000 SystemTimer s') = Purge 2000 SystemTimer example_state"
  by (simp add: Purge_def example_state_def example_item_def example_user_def
      IsPermanentDeleted_def IsDeleted_def recycle_consts Release_def release_bytes_def)

end
